theory Spec2Isabelle
  imports Main "HOL-Library.Word"
begin

unbundle bit_operations_syntax

section \<open>The automation bridge of XAIApp\<close>

text \<open>
  The development embeds three layers of the repository:
  \<^item> \<^verbatim>\<open>AutomationService\<close> (Kotlin): the accessibility service that builds gestures, posts
    runnables to the main looper and injects text into the focused node;
  \<^item> \<^verbatim>\<open>AutomationModule\<close> (Kotlin): the React Native module that turns the service's
    boolean callbacks into promise settlements;
  \<^item> \<^verbatim>\<open>automation.ts\<close>: the TypeScript facade that guards every call by the platform.

  The Android framework (gesture constructors, gesture dispatch, focus lookup, node
  actions, activity launch) is not part of the repository. Its answers are the fields of
  a \<open>platform\<close> record, and every call the code makes to it from a runnable or a module
  method is appended to a log in the state, so that "was never attempted" is a statement
  about that log.
\<close>

subsection \<open>Numbers\<close>

text \<open>
  Kotlin's \<^verbatim>\<open>Long\<close> is a 64-bit two's complement word. \<^verbatim>\<open>Float\<close> and \<^verbatim>\<open>Double\<close> values
  are only carried by this code, never computed on, so they are kept as their IEEE-754 bit
  patterns. The conversions \<^verbatim>\<open>Double.toFloat()\<close> and \<^verbatim>\<open>Double.toLong()\<close> belong to the
  Kotlin runtime and are parameters.
\<close>

type_synonym jlong = "64 word"
type_synonym jfloat = "32 word"
type_synonym jdouble = "64 word"

record conversions =
  toFloat :: "jdouble \<Rightarrow> jfloat"
  toLong :: "jdouble \<Rightarrow> jlong"

text \<open>\<^verbatim>\<open>Long.coerceAtLeast\<close>: a signed comparison.\<close>

definition coerceAtLeast :: "jlong \<Rightarrow> jlong \<Rightarrow> jlong" where
  "coerceAtLeast v minimumValue = (if v <s minimumValue then minimumValue else v)"

subsection \<open>Data of the bridge\<close>

text \<open>
  A \<^verbatim>\<open>Path\<close> is the sequence of the drawing calls made on it. A \<^verbatim>\<open>StrokeDescription\<close>
  holds its three constructor arguments, and a gesture is the list of its strokes.
\<close>

datatype path_op = MoveTo jfloat jfloat | LineTo jfloat jfloat

type_synonym path = "path_op list"

record stroke =
  strokePath :: path
  startTime :: jlong
  duration :: jlong

type_synonym gesture = "stroke list"

text \<open>The points a path visits, in order.\<close>

fun opPoint :: "path_op \<Rightarrow> jfloat \<times> jfloat" where
  "opPoint (MoveTo x y) = (x, y)"
| "opPoint (LineTo x y) = (x, y)"

definition pathPoints :: "path \<Rightarrow> (jfloat \<times> jfloat) list" where
  "pathPoints p = map opPoint p"

text \<open>
  A promise is known by a number; every \<^verbatim>\<open>promise.resolve\<close> and \<^verbatim>\<open>promise.reject\<close> is
  recorded, in order, so that settling a promise twice is visible. The only callback the
  module ever builds is \<^verbatim>\<open>{ success -> promise.resolve(success) }\<close>.
\<close>

datatype reason = Message string | Throwable string

datatype settlement = Resolve bool | Reject string reason

datatype callback = ResolvePromise nat

datatype focus = FOCUS_INPUT | FOCUS_ACCESSIBILITY

datatype action = ACTION_SET_TEXT string | ACTION_PASTE

record intent =
  intentAction :: string
  flags :: "32 word"

definition FLAG_ACTIVITY_NEW_TASK :: "32 word" where
  "FLAG_ACTIVITY_NEW_TASK = 0x10000000"

definition ACTION_ACCESSIBILITY_SETTINGS :: string where
  "ACTION_ACCESSIBILITY_SETTINGS = ''android.settings.ACCESSIBILITY_SETTINGS''"

text \<open>
  The calls made to the Android framework from a runnable or a module method. Services
  and nodes are object references.
\<close>

datatype call =
    DispatchGesture nat gesture
  | FindFocus focus
  | PerformAction nat action
  | SetPrimaryClip string string
  | GetLaunchIntentForPackage string
  | StartActivity intent

text \<open>The two lambdas handed to \<^verbatim>\<open>mainHandler.post\<close>, with what they capture.\<close>

datatype runnable =
    GestureRunnable nat gesture callback
  | PasteRunnable nat string callback

text \<open>
  \<open>uncaught\<close> collects the exceptions that left a module method: the code has no handler
  for them, and the promise of that call is not settled by the module.
\<close>

record state =
  serviceInstance :: "nat option"
  mainQueue :: "runnable list"
  resultCallbacks :: "callback list"
  primaryClip :: "(string \<times> string) option"
  calls :: "call list"
  settled :: "(nat \<times> settlement) list"
  uncaught :: "string list"

text \<open>
  What the framework answers while one runnable or one module method runs.
  \<^item> \<open>strokeRefusal path startTime duration\<close> is the exception that
    \<^verbatim>\<open>GestureDescription.StrokeDescription(path, startTime, duration)\<close> throws, if any, and
    \<open>builderRefusal stroke\<close> the exception that
    \<^verbatim>\<open>GestureDescription.Builder().addStroke(stroke).build()\<close> throws, if any.
  \<^item> \<open>rootInActiveWindow this i\<close> is what the \<open>i\<close>-th read of the getter returns within
    the runnable (the source reads it once on each side of \<^verbatim>\<open>?:\<close>): null or a root node,
    given by its \<^verbatim>\<open>findFocus\<close>.
  \<^item> The two activity calls return the exception they throw, if any.
\<close>

record platform =
  strokeRefusal :: "path \<Rightarrow> jlong \<Rightarrow> jlong \<Rightarrow> string option"
  builderRefusal :: "stroke \<Rightarrow> string option"
  dispatchGesture :: "nat \<Rightarrow> gesture \<Rightarrow> bool"
  rootInActiveWindow :: "nat \<Rightarrow> nat \<Rightarrow> (focus \<Rightarrow> nat option) option"
  performAction :: "nat \<Rightarrow> action \<Rightarrow> bool"
  getLaunchIntentForPackage :: "string \<Rightarrow> string + intent option"
  startActivity :: "intent \<Rightarrow> string option"

definition resolve :: "nat \<Rightarrow> bool \<Rightarrow> state \<Rightarrow> state" where
  "resolve promise v s = s\<lparr>settled := settled s @ [(promise, Resolve v)]\<rparr>"

definition reject :: "nat \<Rightarrow> string \<Rightarrow> reason \<Rightarrow> state \<Rightarrow> state" where
  "reject promise code r s = s\<lparr>settled := settled s @ [(promise, Reject code r)]\<rparr>"

fun invoke :: "callback \<Rightarrow> bool \<Rightarrow> state \<Rightarrow> state" where
  "invoke (ResolvePromise promise) success s = resolve promise success s"

definition logCall :: "call \<Rightarrow> state \<Rightarrow> state" where
  "logCall c s = s\<lparr>calls := calls s @ [c]\<rparr>"

definition post :: "runnable \<Rightarrow> state \<Rightarrow> state" where
  "post r s = s\<lparr>mainQueue := mainQueue s @ [r]\<rparr>"

text \<open>The settlements one promise has received, and the calls made since an earlier state.\<close>

definition settlements :: "nat \<Rightarrow> state \<Rightarrow> settlement list" where
  "settlements promise s = map snd (filter (\<lambda>e. fst e = promise) (settled s))"

definition newCalls :: "state \<Rightarrow> state \<Rightarrow> call list" where
  "newCalls s s' = drop (length (calls s)) (calls s')"

subsection \<open>Gesture builder\<close>

text \<open>
  The two constructors of the framework either throw or hold their arguments.
\<close>

definition StrokeDescription :: "platform \<Rightarrow> path \<Rightarrow> jlong \<Rightarrow> jlong \<Rightarrow> string + stroke" where
  "StrokeDescription p path start dur =
     (case strokeRefusal p path start dur of
        Some e \<Rightarrow> Inl e
      | None \<Rightarrow> Inr \<lparr>strokePath = path, startTime = start, duration = dur\<rparr>)"

definition addStrokeAndBuild :: "platform \<Rightarrow> stroke \<Rightarrow> string + gesture" where
  "addStrokeAndBuild p stroke =
     (case builderRefusal p stroke of
        Some e \<Rightarrow> Inl e
      | None \<Rightarrow> Inr [stroke])"

definition buildGesture :: "platform \<Rightarrow> path \<Rightarrow> jlong \<Rightarrow> string + gesture" where
  "buildGesture p path durationMs =
     (let safeDuration = coerceAtLeast durationMs 1
      in case StrokeDescription p path 0 safeDuration of
           Inl e \<Rightarrow> Inl e
         | Inr stroke \<Rightarrow> addStrokeAndBuild p stroke)"

definition gestureForTap :: "platform \<Rightarrow> jfloat \<Rightarrow> jfloat \<Rightarrow> jlong \<Rightarrow> string + gesture" where
  "gestureForTap p x y durationMs =
     (let path = [MoveTo x y] in buildGesture p path durationMs)"

definition gestureForSwipe ::
  "platform \<Rightarrow> jfloat \<Rightarrow> jfloat \<Rightarrow> jfloat \<Rightarrow> jfloat \<Rightarrow> jlong \<Rightarrow> string + gesture" where
  "gestureForSwipe p startX startY endX endY durationMs =
     (let path = [MoveTo startX startY, LineTo endX endY] in buildGesture p path durationMs)"

subsection \<open>AutomationService\<close>

definition onServiceConnected :: "nat \<Rightarrow> state \<Rightarrow> state" where
  "onServiceConnected this s = s\<lparr>serviceInstance := Some this\<rparr>"

definition onDestroy :: "state \<Rightarrow> state" where
  "onDestroy s = s\<lparr>serviceInstance := None\<rparr>"

definition isRunning :: "state \<Rightarrow> bool" where
  "isRunning s = (serviceInstance s \<noteq> None)"

definition dispatchGestureWithCallback :: "nat \<Rightarrow> gesture \<Rightarrow> callback \<Rightarrow> state \<Rightarrow> state" where
  "dispatchGestureWithCallback this gesture callback s =
     post (GestureRunnable this gesture callback) s"

text \<open>
  The body of the runnable posted by \<^verbatim>\<open>dispatchGestureWithCallback\<close>. The anonymous
  \<^verbatim>\<open>GestureResultCallback\<close> is handed to the framework whatever the framework answers; it
  is remembered in \<open>resultCallbacks\<close>, where the framework finds it again.
\<close>

definition runGesture :: "platform \<Rightarrow> nat \<Rightarrow> gesture \<Rightarrow> callback \<Rightarrow> state \<Rightarrow> state" where
  "runGesture p this gesture callback s =
     (let accepted = dispatchGesture p this gesture;
          s1 = logCall (DispatchGesture this gesture)
                 (s\<lparr>resultCallbacks := resultCallbacks s @ [callback]\<rparr>)
      in if \<not> accepted then invoke callback False s1 else s1)"

definition onCompleted :: "nat \<Rightarrow> state \<Rightarrow> state" where
  "onCompleted k s =
     (if k < length (resultCallbacks s) then invoke (resultCallbacks s ! k) True s else s)"

definition onCancelled :: "nat \<Rightarrow> state \<Rightarrow> state" where
  "onCancelled k s =
     (if k < length (resultCallbacks s) then invoke (resultCallbacks s ! k) False s else s)"

definition pasteInternal :: "nat \<Rightarrow> string \<Rightarrow> callback \<Rightarrow> state \<Rightarrow> state" where
  "pasteInternal this text callback s = post (PasteRunnable this text callback) s"

text \<open>
  \<^verbatim>\<open>rootInActiveWindow?.findFocus(k)\<close>, at the \<open>i\<close>-th read of the getter: no call is made
  on a null root.
\<close>

definition findFocus ::
  "platform \<Rightarrow> nat \<Rightarrow> nat \<Rightarrow> focus \<Rightarrow> state \<Rightarrow> nat option \<times> state" where
  "findFocus p this i k s =
     (case rootInActiveWindow p this i of
        None \<Rightarrow> (None, s)
      | Some root \<Rightarrow> (root k, logCall (FindFocus k) s))"

text \<open>
  \<^verbatim>\<open>rootInActiveWindow?.findFocus(FOCUS_INPUT) ?: rootInActiveWindow?.findFocus(FOCUS_ACCESSIBILITY)\<close>:
  the right-hand side, with its own read of the getter, is evaluated only if the
  left-hand side is null.
\<close>

definition findTarget :: "platform \<Rightarrow> nat \<Rightarrow> state \<Rightarrow> nat option \<times> state" where
  "findTarget p this s =
     (case findFocus p this 0 FOCUS_INPUT s of
        (Some n, s1) \<Rightarrow> (Some n, s1)
      | (None, s1) \<Rightarrow> findFocus p this 1 FOCUS_ACCESSIBILITY s1)"

definition setPrimaryClip :: "string \<Rightarrow> string \<Rightarrow> state \<Rightarrow> state" where
  "setPrimaryClip label text s =
     logCall (SetPrimaryClip label text) (s\<lparr>primaryClip := Some (label, text)\<rparr>)"

text \<open>The body of the runnable posted by \<^verbatim>\<open>pasteInternal\<close>.\<close>

definition runPaste :: "platform \<Rightarrow> nat \<Rightarrow> string \<Rightarrow> callback \<Rightarrow> state \<Rightarrow> state" where
  "runPaste p this text callback s =
     (case findTarget p this s of
        (None, s1) \<Rightarrow> invoke callback False s1
      | (Some target, s1) \<Rightarrow>
          (let setOk = performAction p target (ACTION_SET_TEXT text);
               s2 = logCall (PerformAction target (ACTION_SET_TEXT text)) s1
           in if setOk then invoke callback True s2
              else
                (let s3 = setPrimaryClip ''automation'' text s2;
                     pasteOk = performAction p target ACTION_PASTE;
                     s4 = logCall (PerformAction target ACTION_PASTE) s3
                 in invoke callback pasteOk s4)))"

fun runRunnable :: "platform \<Rightarrow> runnable \<Rightarrow> state \<Rightarrow> state" where
  "runRunnable p (GestureRunnable this gesture callback) s = runGesture p this gesture callback s"
| "runRunnable p (PasteRunnable this text callback) s = runPaste p this text callback s"

text \<open>
  The companion object. An action may throw (building the gesture can), and
  \<^verbatim>\<open>withService\<close> has no handler: the exception leaves it.
\<close>

definition withService ::
  "(nat \<Rightarrow> state \<Rightarrow> string + state) \<Rightarrow> state \<Rightarrow> string + bool \<times> state" where
  "withService act s =
     (case serviceInstance s of
        None \<Rightarrow> Inr (False, s)
      | Some service \<Rightarrow>
          (case act service s of
             Inl e \<Rightarrow> Inl e
           | Inr s1 \<Rightarrow> Inr (True, s1)))"

text \<open>
  In \<^verbatim>\<open>service.dispatchGestureWithCallback(service.gestureForTap(x, y, durationMs), callback)\<close>
  the gesture is built first; if that throws, nothing is posted.
\<close>

definition AutomationService_tap ::
  "platform \<Rightarrow> jfloat \<Rightarrow> jfloat \<Rightarrow> jlong \<Rightarrow> callback \<Rightarrow> state \<Rightarrow> string + bool \<times> state" where
  "AutomationService_tap p x y durationMs callback =
     withService (\<lambda>service s.
       case gestureForTap p x y durationMs of
         Inl e \<Rightarrow> Inl e
       | Inr gesture \<Rightarrow> Inr (dispatchGestureWithCallback service gesture callback s))"

definition AutomationService_swipe ::
  "platform \<Rightarrow> jfloat \<Rightarrow> jfloat \<Rightarrow> jfloat \<Rightarrow> jfloat \<Rightarrow> jlong \<Rightarrow> callback \<Rightarrow> state
     \<Rightarrow> string + bool \<times> state" where
  "AutomationService_swipe p startX startY endX endY durationMs callback =
     withService (\<lambda>service s.
       case gestureForSwipe p startX startY endX endY durationMs of
         Inl e \<Rightarrow> Inl e
       | Inr gesture \<Rightarrow> Inr (dispatchGestureWithCallback service gesture callback s))"

definition AutomationService_pasteText ::
  "string \<Rightarrow> callback \<Rightarrow> state \<Rightarrow> string + bool \<times> state" where
  "AutomationService_pasteText text callback =
     withService (\<lambda>service s. Inr (pasteInternal service text callback s))"

subsection \<open>AutomationModule\<close>

definition notEnabledMessage :: string where
  "notEnabledMessage = ''Accessibility service is not enabled, open settings to allow it.''"

definition isAccessibilityServiceRunning :: "nat \<Rightarrow> state \<Rightarrow> state" where
  "isAccessibilityServiceRunning promise s = resolve promise (isRunning s) s"

definition openAccessibilitySettings :: "platform \<Rightarrow> nat \<Rightarrow> state \<Rightarrow> state" where
  "openAccessibilitySettings p promise s =
     (let intent = \<lparr>intentAction = ACTION_ACCESSIBILITY_SETTINGS, flags = FLAG_ACTIVITY_NEW_TASK\<rparr>;
          s1 = logCall (StartActivity intent) s
      in case startActivity p intent of
           None \<Rightarrow> resolve promise True s1
         | Some e \<Rightarrow> reject promise ''OPEN_SETTINGS_FAILED'' (Throwable e) s1)"

definition openApp :: "platform \<Rightarrow> string \<Rightarrow> nat \<Rightarrow> state \<Rightarrow> state" where
  "openApp p packageName promise s =
     (let s1 = logCall (GetLaunchIntentForPackage packageName) s
      in case getLaunchIntentForPackage p packageName of
           Inl e \<Rightarrow> reject promise ''OPEN_APP_FAILED'' (Throwable e) s1
         | Inr None \<Rightarrow> resolve promise False s1
         | Inr (Some launchIntent) \<Rightarrow>
             (let launchIntent' = launchIntent\<lparr>flags := flags launchIntent OR FLAG_ACTIVITY_NEW_TASK\<rparr>;
                  s2 = logCall (StartActivity launchIntent') s1
              in case startActivity p launchIntent' of
                   None \<Rightarrow> resolve promise True s2
                 | Some e \<Rightarrow> reject promise ''OPEN_APP_FAILED'' (Throwable e) s2))"

text \<open>
  \<open>tap\<close>, \<open>swipe\<close> and \<open>pasteText\<close> have no handler either: an exception of the service
  call leaves the method before \<open>started\<close> is read.
\<close>

definition rejectUnlessStarted :: "nat \<Rightarrow> string + bool \<times> state \<Rightarrow> string + state" where
  "rejectUnlessStarted promise r =
     (case r of
        Inl e \<Rightarrow> Inl e
      | Inr (started, s1) \<Rightarrow>
          Inr (if \<not> started
               then reject promise ''SERVICE_NOT_RUNNING'' (Message notEnabledMessage) s1
               else s1))"

definition AutomationModule_tap ::
  "platform \<Rightarrow> conversions \<Rightarrow> jdouble \<Rightarrow> jdouble \<Rightarrow> jdouble \<Rightarrow> nat \<Rightarrow> state
     \<Rightarrow> string + state" where
  "AutomationModule_tap p cv x y durationMs promise s =
     rejectUnlessStarted promise
       (AutomationService_tap p (toFloat cv x) (toFloat cv y) (toLong cv durationMs)
          (ResolvePromise promise) s)"

definition AutomationModule_swipe ::
  "platform \<Rightarrow> conversions \<Rightarrow> jdouble \<Rightarrow> jdouble \<Rightarrow> jdouble \<Rightarrow> jdouble \<Rightarrow> jdouble \<Rightarrow> nat
     \<Rightarrow> state \<Rightarrow> string + state" where
  "AutomationModule_swipe p cv startX startY endX endY durationMs promise s =
     rejectUnlessStarted promise
       (AutomationService_swipe p (toFloat cv startX) (toFloat cv startY)
          (toFloat cv endX) (toFloat cv endY) (toLong cv durationMs)
          (ResolvePromise promise) s)"

definition AutomationModule_pasteText :: "string \<Rightarrow> nat \<Rightarrow> state \<Rightarrow> string + state" where
  "AutomationModule_pasteText text promise s =
     rejectUnlessStarted promise (AutomationService_pasteText text (ResolvePromise promise) s)"

subsection \<open>The main looper, the framework's events and the calls from JavaScript\<close>

text \<open>
  The main looper runs the runnables in the order they were posted. The framework reports
  on a gesture by calling \<^verbatim>\<open>onCompleted\<close> or \<^verbatim>\<open>onCancelled\<close> on one of the result
  callbacks it was handed, named here by its position in \<open>resultCallbacks\<close>. A call from
  JavaScript that throws leaves the state as it was and the exception in \<open>uncaught\<close>.
\<close>

definition runNext :: "platform \<Rightarrow> state \<Rightarrow> state" where
  "runNext p s =
     (case mainQueue s of
        [] \<Rightarrow> s
      | r # rs \<Rightarrow> runRunnable p r (s\<lparr>mainQueue := rs\<rparr>))"

definition returned :: "state \<Rightarrow> string + state \<Rightarrow> state" where
  "returned s r =
     (case r of
        Inl e \<Rightarrow> s\<lparr>uncaught := uncaught s @ [e]\<rparr>
      | Inr s1 \<Rightarrow> s1)"

datatype event =
    Connected nat
  | Destroyed
  | RunNext platform
  | Completed nat
  | Cancelled nat
  | CallIsRunning nat
  | CallOpenSettings platform nat
  | CallOpenApp platform string nat
  | CallTap platform conversions jdouble jdouble jdouble nat
  | CallSwipe platform conversions jdouble jdouble jdouble jdouble jdouble nat
  | CallPasteText string nat

fun step :: "event \<Rightarrow> state \<Rightarrow> state" where
  "step (Connected this) s = onServiceConnected this s"
| "step Destroyed s = onDestroy s"
| "step (RunNext p) s = runNext p s"
| "step (Completed k) s = onCompleted k s"
| "step (Cancelled k) s = onCancelled k s"
| "step (CallIsRunning promise) s = isAccessibilityServiceRunning promise s"
| "step (CallOpenSettings p promise) s = openAccessibilitySettings p promise s"
| "step (CallOpenApp p packageName promise) s = openApp p packageName promise s"
| "step (CallTap p cv x y durationMs promise) s =
     returned s (AutomationModule_tap p cv x y durationMs promise s)"
| "step (CallSwipe p cv startX startY endX endY durationMs promise) s =
     returned s (AutomationModule_swipe p cv startX startY endX endY durationMs promise s)"
| "step (CallPasteText text promise) s =
     returned s (AutomationModule_pasteText text promise s)"

fun run :: "event list \<Rightarrow> state \<Rightarrow> state" where
  "run [] s = s"
| "run (e # es) s = run es (step e s)"

text \<open>
  The promise a call from JavaScript brings with it, the callback a posted runnable
  holds, and the reports a trace delivers to the result callback at position \<open>k\<close>
  (\<open>True\<close> for \<^verbatim>\<open>onCompleted\<close>, \<open>False\<close> for \<^verbatim>\<open>onCancelled\<close>).
\<close>

fun callPromise :: "event \<Rightarrow> nat option" where
  "callPromise (CallIsRunning promise) = Some promise"
| "callPromise (CallOpenSettings p promise) = Some promise"
| "callPromise (CallOpenApp p packageName promise) = Some promise"
| "callPromise (CallTap p cv x y durationMs promise) = Some promise"
| "callPromise (CallSwipe p cv startX startY endX endY durationMs promise) = Some promise"
| "callPromise (CallPasteText text promise) = Some promise"
| "callPromise _ = None"

fun runnableCallback :: "runnable \<Rightarrow> callback" where
  "runnableCallback (GestureRunnable this gesture callback) = callback"
| "runnableCallback (PasteRunnable this text callback) = callback"

fun reportsOn :: "nat \<Rightarrow> event list \<Rightarrow> bool list" where
  "reportsOn k [] = []"
| "reportsOn k (Completed j # es) = (if j = k then True # reportsOn k es else reportsOn k es)"
| "reportsOn k (Cancelled j # es) = (if j = k then False # reportsOn k es else reportsOn k es)"
| "reportsOn k (_ # es) = reportsOn k es"




text \<open>
  What the awaiting caller sees of a settlement: the boolean of a resolved promise, or
  the error code of a rejected one.
\<close>

fun settledValue :: "settlement \<Rightarrow> bool option" where
  "settledValue (Resolve v) = Some v"
| "settledValue (Reject code r) = None"

fun settledCode :: "settlement \<Rightarrow> string option" where
  "settledCode (Resolve v) = None"
| "settledCode (Reject code r) = Some code"

definition surfaced :: "nat \<Rightarrow> state \<Rightarrow> (bool option \<times> string option) list" where
  "surfaced promise s = map (\<lambda>st. (settledValue st, settledCode st)) (settlements promise s)"

text \<open>
  Promise \<open>pid\<close> is awaited through the result callback at position \<open>k\<close> and through
  nothing else: no other result callback and no posted runnable will settle it.
\<close>

definition owned :: "nat \<Rightarrow> nat \<Rightarrow> state \<Rightarrow> bool" where
  "owned pid k s \<longleftrightarrow>
     k < length (resultCallbacks s)
     \<and> (\<forall>j < length (resultCallbacks s). resultCallbacks s ! j = ResolvePromise pid \<longleftrightarrow> j = k)
     \<and> ResolvePromise pid \<notin> runnableCallback ` set (mainQueue s)"

subsection \<open>automation.ts\<close>

text \<open>
  A JavaScript number is a double, kept as its bit pattern; an omitted argument is
  \<open>None\<close>. The message of the error is the list of its UTF-16 code units. An operation of
  the facade either throws (the promise of the \<^verbatim>\<open>async\<close> function rejects) or forwards
  one call to the native module.
\<close>

datatype js_error = Error "nat list"

datatype native_call =
    NativeIsAccessibilityServiceRunning
  | NativeOpenAccessibilitySettings
  | NativeOpenApp string
  | NativeTap jdouble jdouble jdouble
  | NativeSwipe jdouble jdouble jdouble jdouble jdouble
  | NativePasteText string

definition unavailableMessage :: "nat list" where
  "unavailableMessage =
     [33258, 21160, 21270, 21151, 33021, 20165, 25903, 25345, 24050, 24320, 21551, 26080,
      38556, 30861, 30340, 32, 65, 110, 100, 114, 111, 105, 100, 32, 35774, 22791, 12290]"

text \<open>
  \<open>os\<close> is \<^verbatim>\<open>Platform.OS\<close>; \<open>registered\<close> is \<^verbatim>\<open>NativeModules.AutomationModule\<close>, which is
  undefined when the native module is not linked.
\<close>

definition nativeModule :: "string \<Rightarrow> 'm option \<Rightarrow> 'm option" where
  "nativeModule os registered = (if os = ''android'' then registered else None)"

definition ensureAvailable :: "'m option \<Rightarrow> js_error + 'm" where
  "ensureAvailable nm =
     (case nm of None \<Rightarrow> Inl (Error unavailableMessage) | Some m \<Rightarrow> Inr m)"

definition forward :: "'m option \<Rightarrow> native_call \<Rightarrow> js_error + 'm \<times> native_call" where
  "forward nm c = (case ensureAvailable nm of Inl e \<Rightarrow> Inl e | Inr m \<Rightarrow> Inr (m, c))"

definition js_isServiceRunning :: "'m option \<Rightarrow> js_error + 'm \<times> native_call" where
  "js_isServiceRunning nm = forward nm NativeIsAccessibilityServiceRunning"

definition js_openAccessibilitySettings :: "'m option \<Rightarrow> js_error + 'm \<times> native_call" where
  "js_openAccessibilitySettings nm = forward nm NativeOpenAccessibilitySettings"

definition js_openApp :: "'m option \<Rightarrow> string \<Rightarrow> js_error + 'm \<times> native_call" where
  "js_openApp nm packageName = forward nm (NativeOpenApp packageName)"

definition js_tap ::
  "'m option \<Rightarrow> jdouble \<Rightarrow> jdouble \<Rightarrow> jdouble option \<Rightarrow> js_error + 'm \<times> native_call" where
  "js_tap nm x y durationMs =
     forward nm (NativeTap x y (case durationMs of None \<Rightarrow> 0x4054000000000000 | Some d \<Rightarrow> d))"

definition js_swipe ::
  "'m option \<Rightarrow> jdouble \<Rightarrow> jdouble \<Rightarrow> jdouble \<Rightarrow> jdouble \<Rightarrow> jdouble option
     \<Rightarrow> js_error + 'm \<times> native_call" where
  "js_swipe nm startX startY endX endY durationMs =
     forward nm (NativeSwipe startX startY endX endY
       (case durationMs of None \<Rightarrow> 0x4062C00000000000 | Some d \<Rightarrow> d))"

definition js_pasteText :: "'m option \<Rightarrow> string \<Rightarrow> js_error + 'm \<times> native_call" where
  "js_pasteText nm text = forward nm (NativePasteText text)"

subsection \<open>Scenarios\<close>

text \<open>
  The state of a fresh process: \<^verbatim>\<open>instance\<close> is null, nothing posted, nothing settled.
\<close>

definition initialState :: state where
  "initialState =
     \<lparr>serviceInstance = None, mainQueue = [], resultCallbacks = [], primaryClip = None,
      calls = [], settled = [], uncaught = []\<rparr>"

text \<open>
  The checks that the Android SDK documents for the two gesture constructors: a stroke
  needs a positive duration, a start time that is not negative and a path that is not
  empty, and a gesture must not last longer than
  \<^verbatim>\<open>GestureDescription.getMaxGestureDuration()\<close>, one minute. The check that the bounds of
  the path are not negative reads the coordinates as numbers and is left out.
\<close>

definition MAX_GESTURE_DURATION_MS :: jlong where
  "MAX_GESTURE_DURATION_MS = 60000"

definition sdkStrokeRefusal :: "path \<Rightarrow> jlong \<Rightarrow> jlong \<Rightarrow> string option" where
  "sdkStrokeRefusal path start dur =
     (if dur <=s 0 then Some ''IllegalArgumentException: Duration must be positive''
      else if start <s 0 then Some ''IllegalArgumentException: Start time must not be negative''
      else if path = [] then Some ''IllegalArgumentException: Path is empty''
      else None)"

definition sdkBuilderRefusal :: "stroke \<Rightarrow> string option" where
  "sdkBuilderRefusal stroke =
     (if MAX_GESTURE_DURATION_MS <s startTime stroke + duration stroke
      then Some ''IllegalStateException: Gesture would exceed maximum duration with new stroke''
      else None)"

text \<open>A root node, given by the nodes that hold the two kinds of focus.\<close>

definition focusedRoot :: "nat option \<Rightarrow> nat option \<Rightarrow> focus \<Rightarrow> nat option" where
  "focusedRoot inputFocus accessibilityFocus k =
     (case k of FOCUS_INPUT \<Rightarrow> inputFocus | FOCUS_ACCESSIBILITY \<Rightarrow> accessibilityFocus)"

text \<open>
  A framework with the documented constructor checks whose other answers do not depend on
  the service, node or gesture: \<open>roots i\<close> is the active window at the \<open>i\<close>-th read.
\<close>

definition scenarioPlatform ::
  "bool \<Rightarrow> (nat \<Rightarrow> (focus \<Rightarrow> nat option) option) \<Rightarrow> bool \<Rightarrow> bool \<Rightarrow> platform" where
  "scenarioPlatform accepts roots setOk pasteOk =
     \<lparr>strokeRefusal = sdkStrokeRefusal,
      builderRefusal = sdkBuilderRefusal,
      dispatchGesture = (\<lambda>_ _. accepts),
      rootInActiveWindow = (\<lambda>_. roots),
      performAction = (\<lambda>_ a. case a of ACTION_SET_TEXT _ \<Rightarrow> setOk | ACTION_PASTE \<Rightarrow> pasteOk),
      getLaunchIntentForPackage = (\<lambda>_. Inr None),
      startActivity = (\<lambda>_. None)\<rparr>"


text \<open>
  Kotlin's conversions at the doubles the scenarios use: \<open>1.0\<close>, \<open>100.0\<close> and \<open>200.0\<close> as
  floats, \<open>10.0\<close>, \<open>50.0\<close> and \<open>100.0\<close> as longs. Every other double is sent to zero, which
  no scenario reads.
\<close>

definition scenarioConversions :: conversions where
  "scenarioConversions =
     \<lparr>toFloat = (\<lambda>d. if d = 0x3FF0000000000000 then 0x3F800000
                     else if d = 0x4059000000000000 then 0x42C80000
                     else if d = 0x4069000000000000 then 0x43480000
                     else 0),
      toLong = (\<lambda>d. if d = 0x4024000000000000 then 10
                    else if d = 0x4049000000000000 then 50
                    else if d = 0x4059000000000000 then 100
                    else 0)\<rparr>"

section \<open>Properties\<close>

subsection \<open>Bookkeeping lemmas\<close>

lemma settlements_resolve:
  "settlements pid (resolve q v s) = settlements pid s @ (if q = pid then [Resolve v] else [])"
  by (simp add: settlements_def resolve_def)


lemma settlements_logCall: "settlements pid (logCall c s) = settlements pid s"
  by (simp add: settlements_def logCall_def)



lemma coerceAtLeast_one: "coerceAtLeast d 1 = (if sint d \<le> 0 then 1 else d)"
  by (auto simp: coerceAtLeast_def word_sless_alt)

text \<open>
  \<open>buildGesture\<close> by the answers of the two constructors: it hands over the path, the
  start time 0 and the clamped duration, and has no failing branch of its own.
\<close>

lemma buildGesture_cases:
  "buildGesture p path d =
     (case strokeRefusal p path 0 (if sint d \<le> 0 then 1 else d) of
        Some e \<Rightarrow> Inl e
      | None \<Rightarrow>
          (case builderRefusal p
                  \<lparr>strokePath = path, startTime = 0, duration = (if sint d \<le> 0 then 1 else d)\<rparr> of
             Some e \<Rightarrow> Inl e
           | None \<Rightarrow>
               Inr [\<lparr>strokePath = path, startTime = 0,
                      duration = (if sint d \<le> 0 then 1 else d)\<rparr>]))"
  by (simp add: buildGesture_def StrokeDescription_def addStrokeAndBuild_def coerceAtLeast_one
      split: option.splits)

lemma runGesture_settlements:
  "settlements pid (runGesture p this g (ResolvePromise pid) s) =
     settlements pid s @ (if dispatchGesture p this g then [] else [Resolve False])"
  by (simp add: runGesture_def Let_def settlements_resolve settlements_logCall)
     (simp add: settlements_def)

lemma runGesture_resultCallbacks:
  "resultCallbacks (runGesture p this g cb s) = resultCallbacks s @ [cb]"
  by (cases cb) (simp add: runGesture_def Let_def logCall_def resolve_def)

lemma findFocus_cases:
  "findFocus p this i k s =
     (case rootInActiveWindow p this i of
        None \<Rightarrow> (None, s)
      | Some root \<Rightarrow> (root k, s\<lparr>calls := calls s @ [FindFocus k]\<rparr>))"
  by (simp add: findFocus_def logCall_def split: option.splits)

text \<open>
  The focus lookup only adds \<open>FindFocus\<close> calls to the log, and none twice.
\<close>

lemma findTarget_frame:
  assumes "findTarget p this s = (r, s1)"
  shows "\<exists>ks. distinct ks \<and> s1 = s\<lparr>calls := calls s @ map FindFocus ks\<rparr>"
proof -
  have "s1 = s\<lparr>calls := calls s @ map FindFocus []\<rparr>
      \<or> s1 = s\<lparr>calls := calls s @ map FindFocus [FOCUS_INPUT]\<rparr>
      \<or> s1 = s\<lparr>calls := calls s @ map FindFocus [FOCUS_ACCESSIBILITY]\<rparr>
      \<or> s1 = s\<lparr>calls := calls s @ map FindFocus [FOCUS_INPUT, FOCUS_ACCESSIBILITY]\<rparr>"
    using assms
    by (auto simp: findTarget_def findFocus_cases split: option.splits)
  moreover have "distinct ([]::focus list)" "distinct [FOCUS_INPUT]"
    "distinct [FOCUS_ACCESSIBILITY]" "distinct [FOCUS_INPUT, FOCUS_ACCESSIBILITY]"
    by simp_all
  ultimately show ?thesis by blast
qed

lemma runPaste_found:
  assumes "findTarget p this s = (Some t, s1)"
  shows "runPaste p this str (ResolvePromise pid) s =
     (if performAction p t (ACTION_SET_TEXT str)
      then s1\<lparr>calls := calls s1 @ [PerformAction t (ACTION_SET_TEXT str)],
              settled := settled s1 @ [(pid, Resolve True)]\<rparr>
      else s1\<lparr>calls := calls s1 @ [PerformAction t (ACTION_SET_TEXT str),
                 SetPrimaryClip ''automation'' str, PerformAction t ACTION_PASTE],
              primaryClip := Some (''automation'', str),
              settled := settled s1 @ [(pid, Resolve (performAction p t ACTION_PASTE))]\<rparr>)"
  using assms
  by (simp add: runPaste_def Let_def logCall_def setPrimaryClip_def resolve_def)

text \<open>
  The three commands of the module, by the state of the service.
\<close>

lemma AutomationModule_tap_cases:
  "AutomationModule_tap p cv x y d pid s =
     (case serviceInstance s of
        None \<Rightarrow> Inr (reject pid ''SERVICE_NOT_RUNNING'' (Message notEnabledMessage) s)
      | Some this \<Rightarrow>
          (case gestureForTap p (toFloat cv x) (toFloat cv y) (toLong cv d) of
             Inl e \<Rightarrow> Inl e
           | Inr g \<Rightarrow> Inr (post (GestureRunnable this g (ResolvePromise pid)) s)))"
  by (simp add: AutomationModule_tap_def AutomationService_tap_def withService_def
      rejectUnlessStarted_def dispatchGestureWithCallback_def split: option.splits sum.splits)

lemma AutomationModule_swipe_cases:
  "AutomationModule_swipe p cv x0 y0 x1 y1 d pid s =
     (case serviceInstance s of
        None \<Rightarrow> Inr (reject pid ''SERVICE_NOT_RUNNING'' (Message notEnabledMessage) s)
      | Some this \<Rightarrow>
          (case gestureForSwipe p (toFloat cv x0) (toFloat cv y0) (toFloat cv x1) (toFloat cv y1)
                  (toLong cv d) of
             Inl e \<Rightarrow> Inl e
           | Inr g \<Rightarrow> Inr (post (GestureRunnable this g (ResolvePromise pid)) s)))"
  by (simp add: AutomationModule_swipe_def AutomationService_swipe_def withService_def
      rejectUnlessStarted_def dispatchGestureWithCallback_def split: option.splits sum.splits)

lemma AutomationModule_pasteText_cases:
  "AutomationModule_pasteText str pid s =
     (case serviceInstance s of
        None \<Rightarrow> Inr (reject pid ''SERVICE_NOT_RUNNING'' (Message notEnabledMessage) s)
      | Some this \<Rightarrow> Inr (post (PasteRunnable this str (ResolvePromise pid)) s))"
  by (simp add: AutomationModule_pasteText_def AutomationService_pasteText_def withService_def
      rejectUnlessStarted_def pasteInternal_def split: option.splits)

text \<open>
  The scenarios: a tap that is built, a node with input focus, a connected service with an idle looper.
\<close>

lemma scenario_tap:
  "gestureForTap (scenarioPlatform a roots so po) 0x42C80000 0x43480000 50 =
     Inr [\<lparr>strokePath = [MoveTo 0x42C80000 0x43480000], startTime = 0, duration = 50\<rparr>]"
  by (simp add: gestureForTap_def buildGesture_cases scenarioPlatform_def sdkStrokeRefusal_def
      sdkBuilderRefusal_def MAX_GESTURE_DURATION_MS_def word_sless_alt word_sle_eq)

lemma scenario_findTarget:
  "findTarget (scenarioPlatform a (\<lambda>_. Some (focusedRoot (Some n) acc)) so po) this s =
     (Some n, s\<lparr>calls := calls s @ [FindFocus FOCUS_INPUT]\<rparr>)"
  by (simp add: findTarget_def findFocus_cases scenarioPlatform_def focusedRoot_def)

lemma connected_ready:
  "serviceInstance (onServiceConnected 1 initialState) = Some 1"
  "length ([]::platform list) = length (mainQueue (onServiceConnected 1 initialState))"
  by (simp_all add: onServiceConnected_def initialState_def)

subsection \<open>Traces\<close>

text \<open>
  One event changes the settlements of an awaited promise only if it is a report on its
  result callback; every other event, and every call that brings another promise, leaves
  them alone and keeps the promise awaited at the same position.
\<close>

lemma runGesture_frame:
  "resultCallbacks (runGesture p this g cb s) = resultCallbacks s @ [cb]
   \<and> mainQueue (runGesture p this g cb s) = mainQueue s
   \<and> (cb \<noteq> ResolvePromise pid \<longrightarrow>
        settlements pid (runGesture p this g cb s) = settlements pid s)"
  by (cases cb)
     (auto simp: runGesture_def Let_def logCall_def resolve_def settlements_def)

lemma runPaste_frame:
  "resultCallbacks (runPaste p this str cb s) = resultCallbacks s
   \<and> mainQueue (runPaste p this str cb s) = mainQueue s
   \<and> (cb \<noteq> ResolvePromise pid \<longrightarrow>
        settlements pid (runPaste p this str cb s) = settlements pid s)"
proof -
  obtain r s1 where ft: "findTarget p this s = (r, s1)" by (cases "findTarget p this s")
  from findTarget_frame [OF ft] obtain ks
    where s1: "s1 = s\<lparr>calls := calls s @ map FindFocus ks\<rparr>" by blast
  obtain q where cb: "cb = ResolvePromise q" by (cases cb)
  show ?thesis
    by (cases r)
       (auto simp: runPaste_def ft s1 cb Let_def logCall_def setPrimaryClip_def resolve_def
          settlements_def)
qed

lemma owned_step:
  assumes "owned pid k s" and "callPromise e \<noteq> Some pid"
  shows "owned pid k (step e s)
       \<and> settlements pid (step e s) = settlements pid s @ map Resolve (reportsOn k [e])"
proof (cases e)
  case (Connected this)
  with assms show ?thesis
    by (simp add: owned_def onServiceConnected_def settlements_def)
next
  case Destroyed
  with assms show ?thesis
    by (simp add: owned_def onDestroy_def settlements_def)
next
  case (RunNext p)
  show ?thesis
  proof (cases "mainQueue s")
    case Nil
    with RunNext assms show ?thesis by (simp add: runNext_def)
  next
    case (Cons r rs)
    let ?s0 = "s\<lparr>mainQueue := rs\<rparr>"
    from assms Cons have r: "runnableCallback r \<noteq> ResolvePromise pid"
      and rs: "ResolvePromise pid \<notin> runnableCallback ` set rs"
      by (auto simp: owned_def)
    have st: "step e s = runRunnable p r ?s0"
      using RunNext Cons by (simp add: runNext_def)
    have s0: "settlements pid ?s0 = settlements pid s" by (simp add: settlements_def)
    show ?thesis
    proof (cases r)
      case (GestureRunnable this g cb)
      with r have cb: "cb \<noteq> ResolvePromise pid" by simp
      from runGesture_frame [of p this g cb ?s0 pid] cb assms(1) rs s0
      show ?thesis
        unfolding st GestureRunnable using RunNext
        by (auto simp: owned_def nth_append)
    next
      case (PasteRunnable this str cb)
      with r have cb: "cb \<noteq> ResolvePromise pid" by simp
      from runPaste_frame [of p this str cb ?s0 pid] cb assms(1) rs s0
      show ?thesis
        unfolding st PasteRunnable using RunNext
        by (auto simp: owned_def)
    qed
  qed
next
  case (Completed j)
  show ?thesis
  proof (cases "j < length (resultCallbacks s)")
    case False
    with Completed assms show ?thesis by (auto simp: onCompleted_def owned_def)
  next
    case True
    obtain q where q: "resultCallbacks s ! j = ResolvePromise q"
      by (cases "resultCallbacks s ! j")
    from assms(1) True q have "q = pid \<longleftrightarrow> j = k" by (auto simp: owned_def)
    with Completed True q assms(1) show ?thesis
      by (auto simp: onCompleted_def owned_def resolve_def settlements_def)
  qed
next
  case (Cancelled j)
  show ?thesis
  proof (cases "j < length (resultCallbacks s)")
    case False
    with Cancelled assms show ?thesis by (auto simp: onCancelled_def owned_def)
  next
    case True
    obtain q where q: "resultCallbacks s ! j = ResolvePromise q"
      by (cases "resultCallbacks s ! j")
    from assms(1) True q have "q = pid \<longleftrightarrow> j = k" by (auto simp: owned_def)
    with Cancelled True q assms(1) show ?thesis
      by (auto simp: onCancelled_def owned_def resolve_def settlements_def)
  qed
next
  case (CallIsRunning q)
  with assms show ?thesis
    by (auto simp: isAccessibilityServiceRunning_def owned_def resolve_def settlements_def)
next
  case (CallOpenSettings p q)
  with assms show ?thesis
    by (auto simp: openAccessibilitySettings_def Let_def owned_def resolve_def reject_def
        logCall_def settlements_def split: option.splits)
next
  case (CallOpenApp p packageName q)
  with assms show ?thesis
    by (auto simp: openApp_def Let_def owned_def resolve_def reject_def
        logCall_def settlements_def split: option.splits sum.splits)
next
  case (CallTap p cv x y d q)
  with assms show ?thesis
    by (auto simp: AutomationModule_tap_cases returned_def post_def owned_def reject_def
        settlements_def split: option.splits sum.splits)
next
  case (CallSwipe p cv x0 y0 x1 y1 d q)
  with assms show ?thesis
    by (auto simp: AutomationModule_swipe_cases returned_def post_def owned_def reject_def
        settlements_def split: option.splits sum.splits)
next
  case (CallPasteText str q)
  with assms show ?thesis
    by (auto simp: AutomationModule_pasteText_cases returned_def post_def owned_def reject_def
        settlements_def split: option.splits)
qed

lemma reportsOn_Cons: "reportsOn k (e # es) = reportsOn k [e] @ reportsOn k es"
  by (cases e) auto

lemma owned_run:
  assumes "owned pid k s" and "\<forall>e \<in> set es. callPromise e \<noteq> Some pid"
  shows "settlements pid (run es s) = settlements pid s @ map Resolve (reportsOn k es)"
  using assms
proof (induction es arbitrary: s)
  case Nil
  then show ?case by simp
next
  case (Cons e es)
  from Cons.prems have e: "callPromise e \<noteq> Some pid" by simp
  from owned_step [OF Cons.prems(1) e]
  have o: "owned pid k (step e s)"
    and st: "settlements pid (step e s) = settlements pid s @ map Resolve (reportsOn k [e])"
    by blast+
  from Cons.IH [OF o] Cons.prems(2)
  have "settlements pid (run es (step e s)) =
          settlements pid (step e s) @ map Resolve (reportsOn k es)" by simp
  with st show ?case
    by (simp add: reportsOn_Cons [of k e es])
qed

lemma owned_runGesture:
  assumes "ResolvePromise pid \<notin> set (resultCallbacks s)"
    and "ResolvePromise pid \<notin> runnableCallback ` set (mainQueue s)"
  shows "owned pid (length (resultCallbacks s)) (runGesture p this g (ResolvePromise pid) s)"
  using assms runGesture_frame [of p this g "ResolvePromise pid" s pid]
  by (auto simp: owned_def nth_append in_set_conv_nth)

subsection \<open>From the call to the runnable\<close>

lemma run_append: "run (es @ fs) s = run fs (run es s)"
  by (induction es arbitrary: s) simp_all

lemma findTarget_queue:
  "findTarget p this (s\<lparr>mainQueue := m\<rparr>) =
     (fst (findTarget p this s), (snd (findTarget p this s))\<lparr>mainQueue := m\<rparr>)"
  by (simp add: findTarget_def findFocus_cases split: option.splits)

lemma runRunnable_queue:
  "runRunnable p r (s\<lparr>mainQueue := m\<rparr>) = (runRunnable p r s)\<lparr>mainQueue := m\<rparr>"
proof (cases r)
  case (GestureRunnable this g cb)
  then show ?thesis
    by (cases cb) (simp add: runGesture_def Let_def logCall_def resolve_def)
next
  case (PasteRunnable this str cb)
  obtain q where cb: "cb = ResolvePromise q" by (cases cb)
  obtain t s1 where ft: "findTarget p this s = (t, s1)" by (cases "findTarget p this s")
  show ?thesis
    unfolding PasteRunnable cb
    by (cases t)
       (simp_all add: runPaste_def findTarget_queue ft Let_def logCall_def setPrimaryClip_def
          resolve_def)
qed

lemma runRunnable_mainQueue: "mainQueue (runRunnable p r s) = mainQueue s"
proof (cases r)
  case (GestureRunnable this g cb)
  with runGesture_frame [of p this g cb s] show ?thesis by simp
next
  case (PasteRunnable this str cb)
  with runPaste_frame [of p this str cb s] show ?thesis by simp
qed

text \<open>
  Runnables posted behind the queue do not disturb the ones before them: the looper runs
  the first \<open>length ps\<close> runnables as it would without the new ones, and keeps the new
  ones behind whatever is left.
\<close>

lemma run_RunNext_behind:
  assumes "length ps \<le> length (mainQueue s)"
  shows "run (map RunNext ps) (s\<lparr>mainQueue := mainQueue s @ ex\<rparr>) =
           (run (map RunNext ps) s)\<lparr>mainQueue := drop (length ps) (mainQueue s) @ ex\<rparr>
       \<and> mainQueue (run (map RunNext ps) s) = drop (length ps) (mainQueue s)"
  using assms
proof (induction ps arbitrary: s)
  case Nil
  then show ?case by simp
next
  case (Cons p ps)
  then obtain r rs where q: "mainQueue s = r # rs" by (cases "mainQueue s") auto
  let ?t = "runRunnable p r (s\<lparr>mainQueue := rs\<rparr>)"
  have t: "mainQueue ?t = rs" by (simp add: runRunnable_mainQueue)
  have len: "length ps \<le> length (mainQueue ?t)" using Cons.prems q t by simp
  have a: "runNext p s = ?t" by (simp add: runNext_def q)
  have "runNext p (s\<lparr>mainQueue := mainQueue s @ ex\<rparr>) =
          runRunnable p r (s\<lparr>mainQueue := rs @ ex\<rparr>)"
    by (simp add: runNext_def q)
  also have "\<dots> = (runRunnable p r s)\<lparr>mainQueue := rs @ ex\<rparr>"
    by (rule runRunnable_queue)
  also have "\<dots> = ?t\<lparr>mainQueue := mainQueue ?t @ ex\<rparr>"
    by (simp add: runRunnable_queue t)
  finally have b: "runNext p (s\<lparr>mainQueue := mainQueue s @ ex\<rparr>) =
      ?t\<lparr>mainQueue := mainQueue ?t @ ex\<rparr>" .
  from Cons.IH [OF len]
  have ih1: "run (map RunNext ps) (?t\<lparr>mainQueue := mainQueue ?t @ ex\<rparr>) =
      (run (map RunNext ps) ?t)\<lparr>mainQueue := drop (length ps) (mainQueue ?t) @ ex\<rparr>"
    and ih2: "mainQueue (run (map RunNext ps) ?t) = drop (length ps) (mainQueue ?t)"
    by blast+
  have l: "run (map RunNext (p # ps)) (s\<lparr>mainQueue := mainQueue s @ ex\<rparr>) =
      run (map RunNext ps) (?t\<lparr>mainQueue := mainQueue ?t @ ex\<rparr>)"
    using b by simp
  have r: "run (map RunNext (p # ps)) s = run (map RunNext ps) ?t"
    using a by simp
  have d: "drop (length (p # ps)) (mainQueue s) = drop (length ps) (mainQueue ?t)"
    by (simp add: q t)
  show ?case
    unfolding l r d using ih1 ih2 by simp
qed

lemma run_RunNext_then_posted:
  assumes "length ps = length (mainQueue s)"
  shows "run (map RunNext ps @ [RunNext p]) (post r s) =
           runRunnable p r (run (map RunNext ps) s)"
proof -
  let ?b = "run (map RunNext ps) s"
  from run_RunNext_behind [of ps s "[r]"] assms
  have a: "run (map RunNext ps) (post r s) = ?b\<lparr>mainQueue := [r]\<rparr>"
    and e: "mainQueue ?b = []"
    by (simp_all add: post_def)
  have "?b\<lparr>mainQueue := []\<rparr> = ?b" using e by (cases ?b) simp
  then show ?thesis
    by (simp add: run_append a runNext_def)
qed

text \<open>
  After \<^verbatim>\<open>pasteText(text)\<close> with the service present, once the looper has run what was
  posted before (with the answers \<open>ps\<close>), its next runnable is the paste of that text on
  that service for that promise. Likewise for \<open>tap\<close> and \<open>swipe\<close> when the gesture is
  built.
\<close>

lemma pasteText_runs:
  assumes "serviceInstance s = Some this" and "length ps = length (mainQueue s)"
  shows "run (CallPasteText str pid # map RunNext ps @ [RunNext p]) s =
           runPaste p this str (ResolvePromise pid) (run (map RunNext ps) s)"
  using assms run_RunNext_then_posted [OF assms(2), of p "PasteRunnable this str (ResolvePromise pid)"]
  by (simp add: AutomationModule_pasteText_cases returned_def)




subsection \<open>Posting and calling, counted\<close>








subsection \<open>Gesture builder\<close>

text \<open>
  C6, as stated, fails: a duration of at least 1 can be refused. With the constructor
  checks that the Android SDK documents, \<^verbatim>\<open>tap(100,200,d)\<close> with \<open>d = 60001\<close> is handed
  on unchanged and the builder throws; nothing in the service catches the exception, and
  no runnable is posted.
\<close>

theorem duration_above_maximum_is_refused:
  "gestureForTap (scenarioPlatform True (\<lambda>_. None) False False) 0x42C80000 0x43480000 60001 =
     Inl ''IllegalStateException: Gesture would exceed maximum duration with new stroke''
   \<and> AutomationService_tap (scenarioPlatform True (\<lambda>_. None) False False)
        0x42C80000 0x43480000 60001 (ResolvePromise 0) (onServiceConnected 1 initialState) =
     Inl ''IllegalStateException: Gesture would exceed maximum duration with new stroke''"
  by (simp add: AutomationService_tap_def withService_def onServiceConnected_def
      gestureForTap_def buildGesture_cases scenarioPlatform_def sdkStrokeRefusal_def
      sdkBuilderRefusal_def MAX_GESTURE_DURATION_MS_def word_sless_alt word_sle_eq)

text \<open>
  C6, amended. For every path and every input duration \<open>d\<close>, \<open>buildGesture\<close> hands the
  stroke constructor the duration 1 if \<open>d \<le> 0\<close> (as a signed 64-bit value) and \<open>d\<close>
  unchanged if \<open>d \<ge> 1\<close>, so the constructor never sees a duration that is not positive.
  \<open>buildGesture\<close> refuses nothing itself: it fails exactly when one of the two framework
  constructors throws on that path, the start time 0 and that duration, and otherwise
  returns the gesture with one stroke of that duration. The same holds for
  \<open>gestureForTap\<close> and \<open>gestureForSwipe\<close>.
\<close>

theorem buildGesture_clamps_duration:
  "buildGesture p path d =
     (case strokeRefusal p path 0 (if sint d \<le> 0 then 1 else d) of
        Some e \<Rightarrow> Inl e
      | None \<Rightarrow>
          (case builderRefusal p
                  \<lparr>strokePath = path, startTime = 0, duration = (if sint d \<le> 0 then 1 else d)\<rparr> of
             Some e \<Rightarrow> Inl e
           | None \<Rightarrow>
               Inr [\<lparr>strokePath = path, startTime = 0,
                      duration = (if sint d \<le> 0 then 1 else d)\<rparr>]))
   \<and> 0 < sint (if sint d \<le> 0 then 1 else d)
   \<and> (\<forall>g. gestureForTap p x y d = Inr g \<longrightarrow>
          map duration g = [if sint d \<le> 0 then 1 else d])
   \<and> (\<forall>g. gestureForSwipe p x0 y0 x1 y1 d = Inr g \<longrightarrow>
          map duration g = [if sint d \<le> 0 then 1 else d])"
  by (auto simp: buildGesture_cases gestureForTap_def gestureForSwipe_def Let_def
      split: option.splits)

text \<open>
  With the documented checks: the durations 0 and \<open>-5\<close> become 1, and scenario 1 of
  the specification, \<^verbatim>\<open>tap(100,200,50)\<close>, is built with duration 50.
\<close>

theorem buildGesture_clamps_duration_witness:
  "buildGesture (scenarioPlatform True (\<lambda>_. None) False False) [MoveTo 0x42C80000 0x43480000] 0 =
     Inr [\<lparr>strokePath = [MoveTo 0x42C80000 0x43480000], startTime = 0, duration = 1\<rparr>]
   \<and> buildGesture (scenarioPlatform True (\<lambda>_. None) False False)
        [MoveTo 0x42C80000 0x43480000] (- 5) =
     Inr [\<lparr>strokePath = [MoveTo 0x42C80000 0x43480000], startTime = 0, duration = 1\<rparr>]
   \<and> gestureForTap (scenarioPlatform True (\<lambda>_. None) False False) 0x42C80000 0x43480000 50 =
     Inr [\<lparr>strokePath = [MoveTo 0x42C80000 0x43480000], startTime = 0, duration = 50\<rparr>]
   \<and> map duration
        [\<lparr>strokePath = [MoveTo 0x42C80000 0x43480000], startTime = 0, duration = 50\<rparr>] = [50]"
  using buildGesture_clamps_duration [of "scenarioPlatform True (\<lambda>_. None) False False"
      "[MoveTo 0x42C80000 0x43480000]" 0 "0x42C80000" "0x43480000"]
    buildGesture_clamps_duration [of "scenarioPlatform True (\<lambda>_. None) False False"
      "[MoveTo 0x42C80000 0x43480000]" "- 5" "0x42C80000" "0x43480000"]
    buildGesture_clamps_duration [of "scenarioPlatform True (\<lambda>_. None) False False"
      "[MoveTo 0x42C80000 0x43480000]" 50 "0x42C80000" "0x43480000"]
    scenario_tap [of True "\<lambda>_. None" False False]
  by (simp add: scenarioPlatform_def sdkStrokeRefusal_def
      sdkBuilderRefusal_def MAX_GESTURE_DURATION_MS_def word_sless_alt word_sle_eq)

text \<open>
  C7, as stated, fails: the path of \<^verbatim>\<open>swipe(0,0,0,0,100)\<close> is not the path of
  \<^verbatim>\<open>tap(0,0,100)\<close>. The tap path is a single \<^verbatim>\<open>moveTo\<close>; the swipe path is a \<^verbatim>\<open>moveTo\<close>
  followed by a \<^verbatim>\<open>lineTo\<close>, also when both points coincide.
\<close>

theorem swipe_path_differs_from_tap:
  "map_sum id (map strokePath)
     (gestureForSwipe (scenarioPlatform True (\<lambda>_. None) False False) 0 0 0 0 100) =
     Inr [[MoveTo 0 0, LineTo 0 0]]
   \<and> map_sum id (map strokePath)
     (gestureForTap (scenarioPlatform True (\<lambda>_. None) False False) 0 0 100) =
     Inr [[MoveTo 0 0]]
   \<and> map_sum id (map strokePath)
       (gestureForSwipe (scenarioPlatform True (\<lambda>_. None) False False) 0 0 0 0 100)
     \<noteq> map_sum id (map strokePath)
       (gestureForTap (scenarioPlatform True (\<lambda>_. None) False False) 0 0 100)"
  by (simp add: gestureForTap_def gestureForSwipe_def buildGesture_cases scenarioPlatform_def
      sdkStrokeRefusal_def sdkBuilderRefusal_def MAX_GESTURE_DURATION_MS_def word_sless_alt
      word_sle_eq)

text \<open>
  C7, amended. For every point \<open>(x, y)\<close> and duration \<open>d\<close>, \<^verbatim>\<open>swipe(x,y,x,y,d)\<close> builds
  its gesture from the path of \<^verbatim>\<open>tap(x,y,d)\<close> with one more segment, a \<^verbatim>\<open>lineTo(x, y)\<close>
  of length zero, and from the same duration. Whenever the framework builds both
  gestures, the stroke of the swipe is the stroke of the tap with that segment appended
  to its path: both paths visit the same set of points, and the strokes have the same
  start time and the same effective duration.
\<close>

theorem degenerate_swipe_extends_tap:
  "gestureForTap p x y d = buildGesture p [MoveTo x y] d
   \<and> gestureForSwipe p x y x y d = buildGesture p ([MoveTo x y] @ [LineTo x y]) d
   \<and> (\<forall>gs gt. gestureForSwipe p x y x y d = Inr gs \<and> gestureForTap p x y d = Inr gt \<longrightarrow>
        gs = map (\<lambda>st. st\<lparr>strokePath := strokePath st @ [LineTo x y]\<rparr>) gt
        \<and> map (set \<circ> pathPoints \<circ> strokePath) gs = map (set \<circ> pathPoints \<circ> strokePath) gt
        \<and> map duration gs = map duration gt
        \<and> map startTime gs = map startTime gt)"
  by (auto simp: gestureForTap_def gestureForSwipe_def buildGesture_cases pathPoints_def
      split: option.splits)

text \<open>
  Scenario 6 of the specification: \<^verbatim>\<open>swipe(0,0,0,0,100)\<close> and \<^verbatim>\<open>tap(0,0,100)\<close>.
\<close>

theorem degenerate_swipe_extends_tap_witness:
  "gestureForSwipe (scenarioPlatform True (\<lambda>_. None) False False) 0 0 0 0 100 =
     Inr [\<lparr>strokePath = [MoveTo 0 0, LineTo 0 0], startTime = 0, duration = 100\<rparr>]
   \<and> gestureForTap (scenarioPlatform True (\<lambda>_. None) False False) 0 0 100 =
     Inr [\<lparr>strokePath = [MoveTo 0 0], startTime = 0, duration = 100\<rparr>]
   \<and> [\<lparr>strokePath = [MoveTo 0 0, LineTo 0 0], startTime = 0, duration = 100\<rparr>] =
     map (\<lambda>st. st\<lparr>strokePath := strokePath st @ [LineTo 0 0]\<rparr>)
       [\<lparr>strokePath = [MoveTo 0 0], startTime = 0, duration = (100::jlong)\<rparr>]"
  using degenerate_swipe_extends_tap [of "scenarioPlatform True (\<lambda>_. None) False False" 0 0 100]
  by (simp add: gestureForTap_def gestureForSwipe_def buildGesture_cases scenarioPlatform_def
      sdkStrokeRefusal_def sdkBuilderRefusal_def MAX_GESTURE_DURATION_MS_def word_sless_alt
      word_sle_eq)

subsection \<open>Gesture dispatcher\<close>

text \<open>
  C8. When the runnable of a gesture command runs, a refused submission resolves the
  caller's promise with \<open>False\<close> and an accepted one leaves it pending; a later
  \<^verbatim>\<open>onCompleted\<close> on the command's result callback resolves it with \<open>True\<close>, a later
  \<^verbatim>\<open>onCancelled\<close> with \<open>False\<close>.
\<close>

theorem gesture_outcomes_surface_as_booleans:
  "settlements pid (runGesture p this g (ResolvePromise pid) s) =
     settlements pid s @ (if dispatchGesture p this g then [] else [Resolve False])
   \<and> settlements pid (onCompleted (length (resultCallbacks s))
        (runGesture p this g (ResolvePromise pid) s)) =
     settlements pid (runGesture p this g (ResolvePromise pid) s) @ [Resolve True]
   \<and> settlements pid (onCancelled (length (resultCallbacks s))
        (runGesture p this g (ResolvePromise pid) s)) =
     settlements pid (runGesture p this g (ResolvePromise pid) s) @ [Resolve False]"
  by (simp add: runGesture_settlements onCompleted_def onCancelled_def
      runGesture_resultCallbacks settlements_resolve)

text \<open>
  C1, as stated, fails. In a process with the service connected, \<^verbatim>\<open>tap(1,1,10)\<close> is
  posted, the framework refuses the submission when the runnable runs, and afterwards
  calls \<^verbatim>\<open>onCancelled\<close> on the result callback it was handed: the promise is resolved
  twice. The dispatcher keeps no record of having resolved.
\<close>

theorem refusal_then_cancellation_resolves_twice:
  "settlements 0
     (run [Connected 1,
           CallTap (scenarioPlatform False (\<lambda>_. None) False False) scenarioConversions
             0x3FF0000000000000 0x3FF0000000000000 0x4024000000000000 0,
           RunNext (scenarioPlatform False (\<lambda>_. None) False False),
           Cancelled 0] initialState) = [Resolve False, Resolve False]
   \<and> mainQueue
     (run [Connected 1,
           CallTap (scenarioPlatform False (\<lambda>_. None) False False) scenarioConversions
             0x3FF0000000000000 0x3FF0000000000000 0x4024000000000000 0] initialState) =
       [GestureRunnable 1
          [\<lparr>strokePath = [MoveTo 0x3F800000 0x3F800000], startTime = 0, duration = 10\<rparr>]
          (ResolvePromise 0)]"
  by (simp add: initialState_def onServiceConnected_def AutomationModule_tap_cases returned_def
      gestureForTap_def buildGesture_cases post_def
      runNext_def runGesture_def Let_def logCall_def resolve_def onCancelled_def
      scenarioPlatform_def scenarioConversions_def sdkStrokeRefusal_def sdkBuilderRefusal_def
      MAX_GESTURE_DURATION_MS_def word_sless_alt word_sle_eq settlements_def)

text \<open>
  C1, amended. Let the runnable of a gesture command run in a state where its promise is
  awaited by nothing else, and let any trace of events follow (other runnables, connects
  and disconnects, reports on any result callback, calls from JavaScript that bring other
  promises). Then the promise receives one \<open>Resolve False\<close> if the framework refused the
  submission, followed by one \<open>Resolve\<close> for each \<^verbatim>\<open>onCompleted\<close> or \<^verbatim>\<open>onCancelled\<close> the
  framework delivers to the command's result callback, and nothing else. So it is
  resolved exactly once if and only if the framework delivers no report after a refusal
  and exactly one report after an acceptance.
\<close>

theorem gesture_token_settlements:
  assumes "ResolvePromise pid \<notin> set (resultCallbacks s)"
    and "ResolvePromise pid \<notin> runnableCallback ` set (mainQueue s)"
    and "\<forall>e \<in> set es. callPromise e \<noteq> Some pid"
  shows "settlements pid (run es (runGesture p this g (ResolvePromise pid) s)) =
           settlements pid s @ (if dispatchGesture p this g then [] else [Resolve False])
             @ map Resolve (reportsOn (length (resultCallbacks s)) es)
       \<and> (length (settlements pid (run es (runGesture p this g (ResolvePromise pid) s))) =
            length (settlements pid s) + 1
          \<longleftrightarrow> (if dispatchGesture p this g
               then length (reportsOn (length (resultCallbacks s)) es) = 1
               else reportsOn (length (resultCallbacks s)) es = []))"
proof -
  have "settlements pid (run es (runGesture p this g (ResolvePromise pid) s)) =
          settlements pid (runGesture p this g (ResolvePromise pid) s)
            @ map Resolve (reportsOn (length (resultCallbacks s)) es)"
    by (rule owned_run [OF owned_runGesture [OF assms(1,2)] assms(3)])
  then have eq: "settlements pid (run es (runGesture p this g (ResolvePromise pid) s)) =
           settlements pid s @ (if dispatchGesture p this g then [] else [Resolve False])
             @ map Resolve (reportsOn (length (resultCallbacks s)) es)"
    by (simp add: runGesture_settlements)
  show ?thesis
    unfolding eq by auto
qed

text \<open>
  Scenario 1 of the specification: the gesture of \<^verbatim>\<open>tap(100,200,50)\<close> is accepted and
  completes while another command is issued; the promise is resolved once, with \<open>True\<close>.
\<close>

theorem gesture_token_settlements_witness:
  "settlements 0
     (run [CallPasteText ''x'' 1, Completed 0]
        (runGesture (scenarioPlatform True (\<lambda>_. None) False False) 1
           [\<lparr>strokePath = [MoveTo 0x42C80000 0x43480000], startTime = 0, duration = 50\<rparr>]
           (ResolvePromise 0) initialState))
     = [Resolve True]
   \<and> length (settlements 0
     (run [CallPasteText ''x'' 1, Completed 0]
        (runGesture (scenarioPlatform True (\<lambda>_. None) False False) 1
           [\<lparr>strokePath = [MoveTo 0x42C80000 0x43480000], startTime = 0, duration = 50\<rparr>]
           (ResolvePromise 0) initialState))) = 1"
proof -
  have fresh: "ResolvePromise 0 \<notin> set (resultCallbacks initialState)"
    "ResolvePromise 0 \<notin> runnableCallback ` set (mainQueue initialState)"
    by (simp_all add: initialState_def)
  have others: "\<forall>e \<in> set [CallPasteText ''x'' 1, Completed 0]. callPromise e \<noteq> Some 0"
    by simp
  from gesture_token_settlements [OF fresh others,
      of "scenarioPlatform True (\<lambda>_. None) False False" 1
        "[\<lparr>strokePath = [MoveTo 0x42C80000 0x43480000], startTime = 0, duration = 50\<rparr>]"]
  show ?thesis
    by (simp add: scenarioPlatform_def settlements_def initialState_def)
qed

subsection \<open>Text injection\<close>

text \<open>
  C2. Let \<^verbatim>\<open>pasteText(text)\<close> be called with the service present, let the looper run what
  was posted before and then the runnable of this call, and let the lookup of that
  runnable find the focused target \<open>t\<close>. Then the promise of the call is resolved with
  \<open>True\<close> after the paste action was performed on \<open>t\<close> (success via the clipboard) if and
  only if \<open>t\<close> rejected the set-text action for that text and accepted the paste action;
  the primary clip is then exactly that text, under the label \<^verbatim>\<open>automation\<close>. If \<open>t\<close>
  rejected both actions the call fails: the promise is resolved with the plain boolean
  \<open>False\<close>. The module has no error value of its own for a rejected injection, and the
  caller sees the same \<open>False\<close>, without an error code, as for a missing target.
\<close>

theorem clipboard_paste_iff:
  assumes "serviceInstance s = Some this"
    and "length ps = length (mainQueue s)"
    and "findTarget p this (run (map RunNext ps) s) = (Some t, s1)"
  shows "((settlements pid (run (CallPasteText str pid # map RunNext ps @ [RunNext p]) s) =
             settlements pid (run (map RunNext ps) s) @ [Resolve True]
           \<and> PerformAction t ACTION_PASTE
               \<in> set (newCalls (run (map RunNext ps) s)
                        (run (CallPasteText str pid # map RunNext ps @ [RunNext p]) s)))
          \<longleftrightarrow> (\<not> performAction p t (ACTION_SET_TEXT str) \<and> performAction p t ACTION_PASTE))
       \<and> (\<not> performAction p t (ACTION_SET_TEXT str) \<and> performAction p t ACTION_PASTE
            \<longrightarrow> primaryClip (run (CallPasteText str pid # map RunNext ps @ [RunNext p]) s)
                  = Some (''automation'', str))
       \<and> (\<not> performAction p t (ACTION_SET_TEXT str) \<and> \<not> performAction p t ACTION_PASTE
            \<longrightarrow> surfaced pid (run (CallPasteText str pid # map RunNext ps @ [RunNext p]) s)
                  = surfaced pid (run (map RunNext ps) s) @ [(Some False, None)])"
proof -
  from findTarget_frame [OF assms(3)] obtain ks
    where s1: "s1 = (run (map RunNext ps) s)
                 \<lparr>calls := calls (run (map RunNext ps) s) @ map FindFocus ks\<rparr>" by blast
  show ?thesis
    unfolding pasteText_runs [OF assms(1,2)] runPaste_found [OF assms(3)] s1
    by (auto simp: settlements_def surfaced_def newCalls_def)
qed

text \<open>
  Scenario 4 of the specification: the node with input focus rejects set-text and
  accepts paste; \<^verbatim>\<open>pasteText("hello")\<close> resolves \<open>True\<close> and the clipboard holds
  \<^verbatim>\<open>hello\<close>.
\<close>

theorem clipboard_paste_iff_witness:
  "settlements 0
     (run [Connected 1, CallPasteText ''hello'' 0,
           RunNext (scenarioPlatform True (\<lambda>_. Some (focusedRoot (Some 5) None)) False True)]
        initialState) = [Resolve True]
   \<and> primaryClip
     (run [Connected 1, CallPasteText ''hello'' 0,
           RunNext (scenarioPlatform True (\<lambda>_. Some (focusedRoot (Some 5) None)) False True)]
        initialState) = Some (''automation'', ''hello'')
   \<and> calls
     (run [Connected 1, CallPasteText ''hello'' 0,
           RunNext (scenarioPlatform True (\<lambda>_. Some (focusedRoot (Some 5) None)) False True)]
        initialState) =
       [FindFocus FOCUS_INPUT, PerformAction 5 (ACTION_SET_TEXT ''hello''),
        SetPrimaryClip ''automation'' ''hello'', PerformAction 5 ACTION_PASTE]"
proof -
  let ?p = "scenarioPlatform True (\<lambda>_. Some (focusedRoot (Some 5) None)) False True"
  have target: "findTarget ?p 1 (run (map RunNext []) (onServiceConnected 1 initialState)) =
      (Some 5, (onServiceConnected 1 initialState)
         \<lparr>calls := calls (onServiceConnected 1 initialState) @ [FindFocus FOCUS_INPUT]\<rparr>)"
    by (simp add: scenario_findTarget)
  from clipboard_paste_iff [where str = "''hello''" and pid = 0, OF connected_ready target]
  show ?thesis
    by (simp add: onServiceConnected_def initialState_def AutomationModule_pasteText_cases
        returned_def post_def runNext_def runPaste_def findTarget_def findFocus_cases Let_def
        logCall_def setPrimaryClip_def resolve_def scenarioPlatform_def focusedRoot_def
        settlements_def surfaced_def newCalls_def)
qed

text \<open>
  C3. Let \<^verbatim>\<open>pasteText(text)\<close> be called with the service present, and let the looper run
  what was posted before and then the runnable of this call. Whenever the focused target
  \<open>t\<close> that the runnable finds accepts the set-text action for that text, the promise of
  the call is resolved with \<open>True\<close>, the only call made after the focus lookup is that
  set-text action (success by direct set), the primary clip is what it was when the
  runnable started, and no clipboard write is made.
\<close>

theorem direct_set_keeps_clipboard:
  assumes "serviceInstance s = Some this"
    and "length ps = length (mainQueue s)"
    and "findTarget p this (run (map RunNext ps) s) = (Some t, s1)"
    and "performAction p t (ACTION_SET_TEXT str)"
  shows "settlements pid (run (CallPasteText str pid # map RunNext ps @ [RunNext p]) s) =
           settlements pid (run (map RunNext ps) s) @ [Resolve True]
       \<and> primaryClip (run (CallPasteText str pid # map RunNext ps @ [RunNext p]) s) =
           primaryClip (run (map RunNext ps) s)
       \<and> newCalls s1 (run (CallPasteText str pid # map RunNext ps @ [RunNext p]) s) =
           [PerformAction t (ACTION_SET_TEXT str)]
       \<and> (\<forall>l x. SetPrimaryClip l x
             \<notin> set (newCalls (run (map RunNext ps) s)
                      (run (CallPasteText str pid # map RunNext ps @ [RunNext p]) s)))"
proof -
  from findTarget_frame [OF assms(3)] obtain ks
    where s1: "s1 = (run (map RunNext ps) s)
                 \<lparr>calls := calls (run (map RunNext ps) s) @ map FindFocus ks\<rparr>" by blast
  show ?thesis
    unfolding pasteText_runs [OF assms(1,2)] runPaste_found [OF assms(3)] s1 using assms(4)
    by (auto simp: settlements_def newCalls_def)
qed

text \<open>
  Scenario 3 of the specification: the node with input focus accepts set-text;
  \<^verbatim>\<open>pasteText("hello")\<close> resolves \<open>True\<close> and the clipboard stays empty.
\<close>

theorem direct_set_keeps_clipboard_witness:
  "settlements 0
     (run [Connected 1, CallPasteText ''hello'' 0,
           RunNext (scenarioPlatform True (\<lambda>_. Some (focusedRoot (Some 5) None)) True False)]
        initialState) = [Resolve True]
   \<and> primaryClip
     (run [Connected 1, CallPasteText ''hello'' 0,
           RunNext (scenarioPlatform True (\<lambda>_. Some (focusedRoot (Some 5) None)) True False)]
        initialState) = None
   \<and> calls
     (run [Connected 1, CallPasteText ''hello'' 0,
           RunNext (scenarioPlatform True (\<lambda>_. Some (focusedRoot (Some 5) None)) True False)]
        initialState) =
       [FindFocus FOCUS_INPUT, PerformAction 5 (ACTION_SET_TEXT ''hello'')]"
proof -
  let ?p = "scenarioPlatform True (\<lambda>_. Some (focusedRoot (Some 5) None)) True False"
  have target: "findTarget ?p 1 (run (map RunNext []) (onServiceConnected 1 initialState)) =
      (Some 5, (onServiceConnected 1 initialState)
         \<lparr>calls := calls (onServiceConnected 1 initialState) @ [FindFocus FOCUS_INPUT]\<rparr>)"
    by (simp add: scenario_findTarget)
  have accepts: "performAction ?p 5 (ACTION_SET_TEXT ''hello'')"
    by (simp add: scenarioPlatform_def)
  from direct_set_keeps_clipboard [where pid = 0, OF connected_ready target accepts]
  show ?thesis
    by (simp add: onServiceConnected_def initialState_def AutomationModule_pasteText_cases
        returned_def post_def runNext_def runPaste_def findTarget_def findFocus_cases Let_def
        logCall_def setPrimaryClip_def resolve_def scenarioPlatform_def focusedRoot_def
        settlements_def surfaced_def newCalls_def)
qed

text \<open>
  C4. Let \<^verbatim>\<open>pasteText(text)\<close> be called with the service present, and let the looper run
  what was posted before and then the runnable of this call. The runnable first asks the
  active window, if there is one, for the node with input focus, and the set-text action
  goes to that node without any lookup of accessibility focus. Only if there is no such
  node (or no active window at that read) does it read the active window again and ask
  for the node with accessibility focus, which then receives the set-text action. If
  neither lookup yields a node, the promise is resolved with \<open>False\<close> and nothing else
  happens: the state is the one in which the runnable started, with the lookups logged
  and the promise settled; no set-text action, no clipboard write, no paste action.
\<close>

theorem focus_lookup_order:
  assumes "serviceInstance s = Some this"
    and "length ps = length (mainQueue s)"
  shows "(let before = run (map RunNext ps) s;
              after = run (CallPasteText str pid # map RunNext ps @ [RunNext p]) s;
              first = (case rootInActiveWindow p this 0 of
                         None \<Rightarrow> [] | Some root \<Rightarrow> [FindFocus FOCUS_INPUT])
          in case (case rootInActiveWindow p this 0 of
                     None \<Rightarrow> None | Some root \<Rightarrow> root FOCUS_INPUT) of
               Some t \<Rightarrow>
                 take 2 (newCalls before after) =
                   [FindFocus FOCUS_INPUT, PerformAction t (ACTION_SET_TEXT str)]
             | None \<Rightarrow>
                 (case rootInActiveWindow p this 1 of
                    None \<Rightarrow>
                      after = before\<lparr>calls := calls before @ first,
                                      settled := settled before @ [(pid, Resolve False)]\<rparr>
                  | Some root \<Rightarrow>
                      (case root FOCUS_ACCESSIBILITY of
                         None \<Rightarrow>
                           after = before\<lparr>calls := calls before @ first
                                             @ [FindFocus FOCUS_ACCESSIBILITY],
                                           settled := settled before @ [(pid, Resolve False)]\<rparr>
                       | Some t \<Rightarrow>
                           take (length first + 2) (newCalls before after) =
                             first @ [FindFocus FOCUS_ACCESSIBILITY,
                                      PerformAction t (ACTION_SET_TEXT str)])))"
  unfolding pasteText_runs [OF assms]
  by (auto simp: Let_def runPaste_def findTarget_def findFocus_cases resolve_def logCall_def
      setPrimaryClip_def newCalls_def split: option.splits)

text \<open>
  Scenario 5 of the specification (no focused node, \<^verbatim>\<open>pasteText("x")\<close> gives \<open>False\<close>);
  a window that appears between the two reads; and a window with both kinds of focus,
  where the node with input focus is the target.
\<close>

theorem focus_lookup_order_witness:
  "run [Connected 1, CallPasteText ''x'' 0,
        RunNext (scenarioPlatform True (\<lambda>_. Some (focusedRoot None None)) True True)]
     initialState =
     initialState\<lparr>serviceInstance := Some 1,
                  calls := [FindFocus FOCUS_INPUT, FindFocus FOCUS_ACCESSIBILITY],
                  settled := [(0, Resolve False)]\<rparr>
   \<and> calls
     (run [Connected 1, CallPasteText ''x'' 0,
        RunNext (scenarioPlatform True
          (\<lambda>i. if i = 0 then None else Some (focusedRoot None (Some 7))) True True)]
     initialState) = [FindFocus FOCUS_ACCESSIBILITY, PerformAction 7 (ACTION_SET_TEXT ''x'')]
   \<and> calls
     (run [Connected 1, CallPasteText ''x'' 0,
        RunNext (scenarioPlatform True (\<lambda>_. Some (focusedRoot (Some 5) (Some 7))) True True)]
     initialState) = [FindFocus FOCUS_INPUT, PerformAction 5 (ACTION_SET_TEXT ''x'')]"
  using focus_lookup_order [where str = "''x''" and pid = 0 and
        p = "scenarioPlatform True (\<lambda>_. Some (focusedRoot None None)) True True",
      OF connected_ready]
    focus_lookup_order [where str = "''x''" and pid = 0 and
        p = "scenarioPlatform True
               (\<lambda>i. if i = 0 then None else Some (focusedRoot None (Some 7))) True True",
      OF connected_ready]
    focus_lookup_order [where str = "''x''" and pid = 0 and
        p = "scenarioPlatform True (\<lambda>_. Some (focusedRoot (Some 5) (Some 7))) True True",
      OF connected_ready]
  by (simp add: onServiceConnected_def initialState_def AutomationModule_pasteText_cases
        returned_def post_def runNext_def runPaste_def findTarget_def findFocus_cases Let_def
        logCall_def setPrimaryClip_def resolve_def scenarioPlatform_def focusedRoot_def
        settlements_def surfaced_def newCalls_def)

subsection \<open>Capability handle\<close>

text \<open>
  C5. For every call of the module's \<open>tap\<close>, \<open>swipe\<close> and \<open>pasteText\<close> made while the
  service instance is null, the promise is rejected with the code
  \<^verbatim>\<open>SERVICE_NOT_RUNNING\<close> (it is not resolved with \<open>False\<close>), and the state is otherwise
  unchanged: no gesture is built, nothing is posted to the main looper, so no gesture is
  dispatched and no injection is attempted.
\<close>

theorem absent_handle_rejects:
  assumes "serviceInstance s = None"
  shows "AutomationModule_tap p cv x y d pid s =
           Inr (s\<lparr>settled := settled s @
               [(pid, Reject ''SERVICE_NOT_RUNNING'' (Message notEnabledMessage))]\<rparr>)
       \<and> AutomationModule_swipe p cv x0 y0 x1 y1 d pid s =
           Inr (s\<lparr>settled := settled s @
               [(pid, Reject ''SERVICE_NOT_RUNNING'' (Message notEnabledMessage))]\<rparr>)
       \<and> AutomationModule_pasteText str pid s =
           Inr (s\<lparr>settled := settled s @
               [(pid, Reject ''SERVICE_NOT_RUNNING'' (Message notEnabledMessage))]\<rparr>)
       \<and> step (CallTap p cv x y d pid) s =
           s\<lparr>settled := settled s @
               [(pid, Reject ''SERVICE_NOT_RUNNING'' (Message notEnabledMessage))]\<rparr>
       \<and> step (CallSwipe p cv x0 y0 x1 y1 d pid) s =
           s\<lparr>settled := settled s @
               [(pid, Reject ''SERVICE_NOT_RUNNING'' (Message notEnabledMessage))]\<rparr>
       \<and> step (CallPasteText str pid) s =
           s\<lparr>settled := settled s @
               [(pid, Reject ''SERVICE_NOT_RUNNING'' (Message notEnabledMessage))]\<rparr>"
  using assms
  by (simp add: AutomationModule_tap_cases AutomationModule_swipe_cases
      AutomationModule_pasteText_cases returned_def reject_def)

text \<open>
  Scenario 2 of the specification: \<^verbatim>\<open>tap(1,1,10)\<close> in a fresh process.
\<close>

theorem absent_handle_rejects_witness:
  "serviceInstance initialState = None
   \<and> settled (run [CallTap (scenarioPlatform True (\<lambda>_. None) True True) scenarioConversions
        0x3FF0000000000000 0x3FF0000000000000 0x4024000000000000 0] initialState) =
       [(0, Reject ''SERVICE_NOT_RUNNING'' (Message notEnabledMessage))]
   \<and> mainQueue (run [CallTap (scenarioPlatform True (\<lambda>_. None) True True) scenarioConversions
        0x3FF0000000000000 0x3FF0000000000000 0x4024000000000000 0] initialState) = []
   \<and> calls (run [CallTap (scenarioPlatform True (\<lambda>_. None) True True) scenarioConversions
        0x3FF0000000000000 0x3FF0000000000000 0x4024000000000000 0] initialState) = []"
proof -
  have absent: "serviceInstance initialState = None"
    by (simp add: initialState_def)
  from absent_handle_rejects [OF absent, of "scenarioPlatform True (\<lambda>_. None) True True"
      scenarioConversions "0x3FF0000000000000" "0x3FF0000000000000" "0x4024000000000000" 0]
  show ?thesis
    by (simp add: initialState_def returned_def)
qed

subsection \<open>Error propagation\<close>




subsection \<open>Facade\<close>

text \<open>
  C10. On every platform other than Android, whatever native modules are registered,
  each of the six operations of the facade throws the facade's error (its promise
  rejects) and forwards no call to the native module.
\<close>

theorem facade_throws_off_android:
  assumes "os \<noteq> ''android''"
  shows "js_isServiceRunning (nativeModule os reg) = Inl (Error unavailableMessage)
       \<and> js_openAccessibilitySettings (nativeModule os reg) = Inl (Error unavailableMessage)
       \<and> js_openApp (nativeModule os reg) packageName = Inl (Error unavailableMessage)
       \<and> js_tap (nativeModule os reg) x y d = Inl (Error unavailableMessage)
       \<and> js_swipe (nativeModule os reg) x0 y0 x1 y1 d = Inl (Error unavailableMessage)
       \<and> js_pasteText (nativeModule os reg) text = Inl (Error unavailableMessage)"
  using assms
  by (simp add: js_isServiceRunning_def js_openAccessibilitySettings_def js_openApp_def
      js_tap_def js_swipe_def js_pasteText_def forward_def ensureAvailable_def nativeModule_def)

theorem facade_throws_off_android_witness:
  "''ios'' \<noteq> ''android''
   \<and> js_tap (nativeModule ''ios'' (Some (0::nat))) 0x3FF0000000000000 0x3FF0000000000000 None =
       Inl (Error unavailableMessage)
   \<and> js_pasteText (nativeModule ''ios'' (Some (0::nat))) ''hello'' =
       Inl (Error unavailableMessage)"
proof -
  have other: "''ios'' \<noteq> ''android''" by simp
  from facade_throws_off_android [OF other, of "Some (0::nat)"]
  show ?thesis by simp
qed

end
